theory Spec2Isabelle
  imports Complex_Main
begin

section \<open>Python values\<close>

text \<open>
  The program is \<^verbatim>\<open>src/ruler.py\<close>: a Cocoa view, \<^verbatim>\<open>RulerView\<close>, that works out how many
  points make one millimetre on the display showing its window, resizes the window to hold
  a 150 mm ruler and draws it.

  Python's \<^verbatim>\<open>float\<close> is modelled by \<^typ>\<open>real\<close>: the finite values, with exact
  arithmetic. Rounding, infinities and NaN are outside the model. Python's \<^verbatim>\<open>int\<close> is
  \<^typ>\<open>int\<close> (or \<^typ>\<open>nat\<close> for the loop counters, which start at 0), and
  \<^verbatim>\<open>float(n)\<close> is \<^term>\<open>real_of_int\<close>. \<^verbatim>\<open>None\<close> is \<^term>\<open>None\<close>.

  An exception is a value of \<open>py_error\<close>, and a block that can raise returns
  \<open>py_error + 'a\<close>. A call into AppKit or Quartz that raises is \<open>QueryFailed\<close>: the
  program catches all of them with \<^verbatim>\<open>except Exception\<close> and never looks at which one
  it was.
\<close>

datatype py_error = ZeroDivisionError | ValueError | TypeError | QueryFailed

text \<open>\<^verbatim>\<open>a / b\<close> on floats raises when the divisor is zero.\<close>

definition truediv :: "real \<Rightarrow> real \<Rightarrow> py_error + real" where
  "truediv a b = (if b = 0 then Inl ZeroDivisionError else Inr (a / b))"

text \<open>\<^verbatim>\<open>str(n)\<close> for a non-negative integer: its decimal digits.\<close>

definition digit :: "nat \<Rightarrow> char" where
  "digit d = ''0123456789'' ! d"

fun str :: "nat \<Rightarrow> string" where
  "str n = (if n < 10 then [digit n] else str (n div 10) @ [digit (n mod 10)])"

declare str.simps [simp del]

text \<open>\<^verbatim>\<open>s or ""\<close> for an optional string: \<^verbatim>\<open>None\<close> and the empty string are falsy.\<close>

definition or_empty :: "string option \<Rightarrow> string" where
  "or_empty s = (case s of None \<Rightarrow> [] | Some t \<Rightarrow> (if t = [] then [] else t))"

text \<open>The truth value of an optional string, as in \<^verbatim>\<open>if self._error_text:\<close>.\<close>

definition truthy :: "string option \<Rightarrow> bool" where
  "truthy s = (case s of None \<Rightarrow> False | Some t \<Rightarrow> t \<noteq> [])"

section \<open>Constants (lines 51 to 63)\<close>

definition FALLBACK_PPI :: real where
  "FALLBACK_PPI = 254.0"

definition MM_PER_INCH :: real where
  "MM_PER_INCH = 25.4"

definition RULER_LENGTH_MM :: nat where
  "RULER_LENGTH_MM = 150"

definition MARGIN_PT :: real where
  "MARGIN_PT = 20.0"

definition CONTENT_H_PT :: real where
  "CONTENT_H_PT = 90.0"

definition BASELINE_Y_PT :: real where
  "BASELINE_Y_PT = 28.0"

definition TICK_SMALL_PT :: real where
  "TICK_SMALL_PT = 10.0"

definition TICK_MED_PT :: real where
  "TICK_MED_PT = 18.0"

definition TICK_LARGE_PT :: real where
  "TICK_LARGE_PT = 28.0"

section \<open>The display context\<close>

text \<open>
  What \<^verbatim>\<open>recomputeAndResize\<close> reads from the windowing system, as one record: the value
  each call returns, \<^term>\<open>None\<close> where the source gets \<^verbatim>\<open>None\<close> (the window, a screen)
  or where the call raises (the three measurements). The other calls (\<^verbatim>\<open>window\<close>,
  \<^verbatim>\<open>screen\<close>, \<^verbatim>\<open>mainScreen\<close>, \<^verbatim>\<open>deviceDescription\<close>, \<^verbatim>\<open>objectForKey_\<close>,
  \<^verbatim>\<open>setContentSize_\<close>, \<^verbatim>\<open>setNeedsDisplay_\<close>) are outside every \<^verbatim>\<open>try\<close> and are taken
  to return.

  \<^item> \<open>NSScreenNumber\<close> is the entry of that name in the screen's device description
    (line 97), \<^term>\<open>None\<close> when there is none.
  \<^item> \<open>CGDisplayScreenSize d\<close> is the \<^verbatim>\<open>width\<close> of the size in millimetres (lines 113, 114).
  \<^item> \<open>CGDisplayModeGetPixelWidth d\<close> is the pixel width of the current mode of display
    \<open>d\<close> (lines 115, 116, before \<^verbatim>\<open>float\<close>).
  \<^item> \<open>convertRectToBacking\<close> is the width of the backing rectangle of
    \<^verbatim>\<open>NSMakeRect(0, 0, 200, 1)\<close> (lines 129, 130).
\<close>

record ns_screen =
  NSScreenNumber :: "int option"

record ns_window =
  screen :: "ns_screen option"

record display_context =
  window :: "ns_window option"
  mainScreen :: "ns_screen option"
  CGDisplayScreenSize :: "int \<Rightarrow> real option"
  CGDisplayModeGetPixelWidth :: "int \<Rightarrow> int option"
  convertRectToBacking :: "real option"

section \<open>The view's state\<close>

text \<open>
  The two attributes of \<^verbatim>\<open>RulerView\<close>, \<^verbatim>\<open>_points_per_mm\<close> and \<^verbatim>\<open>_error_text\<close>. The state is
  degraded when the note is one that \<^verbatim>\<open>drawRect_\<close> would show (line 192).
\<close>

record ruler_view =
  points_per_mm :: real
  error_text :: "string option"

definition degraded :: "ruler_view \<Rightarrow> bool" where
  "degraded self = truthy (error_text self)"

text \<open>
  \<^verbatim>\<open>initWithFrame_\<close> (lines 67 to 74). The argument says whether the initialiser of
  \<^verbatim>\<open>NSView\<close> returned an object; when it did not the method returns \<^verbatim>\<open>None\<close>.
\<close>

definition initWithFrame :: "bool \<Rightarrow> ruler_view option" where
  "initWithFrame super_ok =
     (if \<not> super_ok then None
      else Some \<lparr>points_per_mm = 5.0, error_text = None\<rparr>)"

section \<open>recomputeAndResize (lines 95 to 144)\<close>

text \<open>
  \<^verbatim>\<open>_display_id_for_screen\<close> (lines 95 to 101): \<^verbatim>\<open>int(did)\<close> raises on \<^verbatim>\<open>None\<close>, and the
  method then returns \<^verbatim>\<open>None\<close>.
\<close>

definition py_int :: "int option \<Rightarrow> py_error + int" where
  "py_int v = (case v of None \<Rightarrow> Inl TypeError | Some n \<Rightarrow> Inr n)"

definition display_id_for_screen :: "ns_screen \<Rightarrow> int option" where
  "display_id_for_screen scr =
     (case py_int (NSScreenNumber scr) of
        Inl e \<Rightarrow> None
      | Inr display_id \<Rightarrow> Some display_id)"

text \<open>Line 105: the window's screen, or the main screen when there is no window or no screen.\<close>

definition select_screen :: "display_context \<Rightarrow> ns_screen option" where
  "select_screen ctx =
     (case window ctx of
        None \<Rightarrow> mainScreen ctx
      | Some win \<Rightarrow>
          (case screen win of
             None \<Rightarrow> mainScreen ctx
           | Some s \<Rightarrow> Some s))"

text \<open>Line 106.\<close>

definition select_display_id :: "display_context \<Rightarrow> int option" where
  "select_display_id ctx =
     (case select_screen ctx of
        None \<Rightarrow> None
      | Some s \<Rightarrow> display_id_for_screen s)"

text \<open>
  The body of the \<^verbatim>\<open>try\<close> of lines 113 to 119, for a display id: the value of
  \<^verbatim>\<open>pixels_per_mm\<close> after it, or the exception that left it.
\<close>

definition try_measure :: "display_context \<Rightarrow> int \<Rightarrow> py_error + real option" where
  "try_measure ctx display_id =
     (case CGDisplayScreenSize ctx display_id of
        None \<Rightarrow> Inl QueryFailed
      | Some mm_w \<Rightarrow>
          (case CGDisplayModeGetPixelWidth ctx display_id of
             None \<Rightarrow> Inl QueryFailed
           | Some px \<Rightarrow>
               (let px_w = real_of_int px in
                if mm_w > 0.0 \<and> px_w > 0.0 then
                  (case truediv px_w mm_w of
                     Inl e \<Rightarrow> Inl e
                   | Inr q \<Rightarrow> Inr (Some q))
                else Inr None)))"

text \<open>Lines 108 to 121: \<^verbatim>\<open>pixels_per_mm\<close> before the fallback, \<^verbatim>\<open>None\<close> after any exception.\<close>

definition measured_pixels_per_mm :: "display_context \<Rightarrow> real option" where
  "measured_pixels_per_mm ctx =
     (case select_display_id ctx of
        None \<Rightarrow> None
      | Some display_id \<Rightarrow>
          (case try_measure ctx display_id of
             Inl e \<Rightarrow> None
           | Inr p \<Rightarrow> p))"

definition fallback_ppi_note :: string where
  "fallback_ppi_note =
     ''Note: Using fallback PPI (system didn'' @ [CHR 0xE2, CHR 0x80, CHR 0x99] @
     ''t report physical mm size).''"

definition fallback_scale_note :: string where
  "fallback_scale_note = '' (Also fell back to pixels/point=2.0.)''"

text \<open>
  Lines 108 to 125: \<^verbatim>\<open>pixels_per_mm\<close> and \<^verbatim>\<open>self._error_text\<close> after the fallback. The
  divisor of line 124 is the constant 25.4.
\<close>

definition resolve_pixels_per_mm :: "display_context \<Rightarrow> real \<times> string option" where
  "resolve_pixels_per_mm ctx =
     (case measured_pixels_per_mm ctx of
        None \<Rightarrow> (FALLBACK_PPI / MM_PER_INCH, Some fallback_ppi_note)
      | Some p \<Rightarrow> (p, None))"

text \<open>
  The body of the \<^verbatim>\<open>try\<close> of lines 129 to 132: \<^verbatim>\<open>pixels_per_point\<close>, or the exception. The
  divisor of line 130 is the literal 200.0.
\<close>

definition try_backing :: "display_context \<Rightarrow> py_error + real" where
  "try_backing ctx =
     (case convertRectToBacking ctx of
        None \<Rightarrow> Inl QueryFailed
      | Some width \<Rightarrow>
          (let pixels_per_point = width / 200.0 in
           if pixels_per_point \<le> 0 then Inl ValueError else Inr pixels_per_point))"

text \<open>
  Lines 128 to 135: \<^verbatim>\<open>pixels_per_point\<close> and \<^verbatim>\<open>self._error_text\<close> after the second
  \<^verbatim>\<open>try\<close>, from the note the first part left.
\<close>

definition resolve_pixels_per_point ::
    "display_context \<Rightarrow> string option \<Rightarrow> real \<times> string option" where
  "resolve_pixels_per_point ctx err =
     (case try_backing ctx of
        Inl e \<Rightarrow> (2.0, Some (or_empty err @ fallback_scale_note))
      | Inr pixels_per_point \<Rightarrow> (pixels_per_point, err))"

text \<open>Lines 139 and 140: the content width for a scale.\<close>

definition content_w :: "real \<Rightarrow> real" where
  "content_w ppm = MARGIN_PT * 2.0 + real RULER_LENGTH_MM * ppm"

text \<open>
  What the method asks of the window and of the view: the content size passed to
  \<^verbatim>\<open>setContentSize_\<close> (none when the view has no window) and the flag passed to
  \<^verbatim>\<open>setNeedsDisplay_\<close>.
\<close>

record effects =
  content_size :: "(real \<times> real) option"
  needs_display :: bool

text \<open>
  The whole method. The division of line 137 is outside every \<^verbatim>\<open>try\<close>: an exception
  there would leave the method, and is the \<open>Inl\<close> of the result.
\<close>

definition recomputeAndResize ::
    "display_context \<Rightarrow> ruler_view \<Rightarrow> py_error + (ruler_view \<times> effects)" where
  "recomputeAndResize ctx self =
     (let (pixels_per_mm, err1) = resolve_pixels_per_mm ctx;
          (pixels_per_point, err2) = resolve_pixels_per_point ctx err1
      in case truediv pixels_per_mm pixels_per_point of
           Inl e \<Rightarrow> Inl e
         | Inr ppm \<Rightarrow>
             Inr (self\<lparr>points_per_mm := ppm, error_text := err2\<rparr>,
                  \<lparr>content_size =
                     (case window ctx of
                        None \<Rightarrow> None
                      | Some win \<Rightarrow> Some (content_w ppm, CONTENT_H_PT)),
                   needs_display = True\<rparr>))"

section \<open>drawRect_ (lines 146 to 199)\<close>

text \<open>
  What the method draws: the rectangle filled with white, the operations of the path
  that is stroked in black, and the strings drawn, each with its point, its font size and
  its colour, in the order of the calls.
\<close>

datatype path_op = moveToPoint "real \<times> real" | lineToPoint "real \<times> real"

datatype colour = blackColor | grayColor

record text_op =
  text_string :: string
  at_point :: "real \<times> real"
  font_size :: real
  text_colour :: colour

type_synonym rect = "real \<times> real \<times> real \<times> real"

record drawing =
  filled :: rect
  path :: "path_op list"
  texts :: "text_op list"

text \<open>Lines 167 to 172: the height of the tick at a millimetre.\<close>

definition tick_height :: "nat \<Rightarrow> real" where
  "tick_height mm =
     (if mm mod 10 = 0 then TICK_LARGE_PT
      else if mm mod 5 = 0 then TICK_MED_PT
      else TICK_SMALL_PT)"

text \<open>Lines 166 to 174: the body of the loop over the millimetres, on the path so far.\<close>

definition tick :: "real \<Rightarrow> nat \<Rightarrow> path_op list \<Rightarrow> path_op list" where
  "tick ppm mm p =
     (let x0 = MARGIN_PT;
          y0 = BASELINE_Y_PT;
          x = x0 + real mm * ppm;
          h = tick_height mm
      in p @ [moveToPoint (x, y0), lineToPoint (x, y0 + h)])"

text \<open>
  Lines 186 to 189: the body of the loop over the centimetres, on the strings drawn so
  far. \<open>sizeWithAttributes s f\<close> is the width and height AppKit measures for the string
  \<open>s\<close> in the system font of size \<open>f\<close>.
\<close>

definition label ::
    "(string \<Rightarrow> real \<Rightarrow> real \<times> real) \<Rightarrow> real \<Rightarrow> nat \<Rightarrow> text_op list \<Rightarrow> text_op list" where
  "label sizeWithAttributes ppm cm ts =
     (let x0 = MARGIN_PT;
          y0 = BASELINE_Y_PT;
          x = x0 + real (cm * 10) * ppm;
          s = str cm;
          (size_width, size_height) = sizeWithAttributes s 12.0
      in ts @ [\<lparr>text_string = s,
                at_point = (x - size_width / 2.0, y0 - size_height - 4.0),
                font_size = 12.0,
                text_colour = blackColor\<rparr>])"

text \<open>Lines 192 to 199: the warning, when there is a note.\<close>

definition warning :: "ruler_view \<Rightarrow> text_op list \<Rightarrow> text_op list" where
  "warning self ts =
     (case error_text self of
        None \<Rightarrow> ts
      | Some note \<Rightarrow>
          (if note = [] then ts
           else ts @ [\<lparr>text_string = note,
                        at_point = (MARGIN_PT, CONTENT_H_PT - 18.0),
                        font_size = 11.0,
                        text_colour = grayColor\<rparr>]))"

text \<open>
  The whole method: the drawing, and the view after it. The two \<^verbatim>\<open>for\<close> loops run over
  \<^verbatim>\<open>range(0, RULER_LENGTH_MM + 1)\<close> and \<^verbatim>\<open>range(0, RULER_LENGTH_MM // 10 + 1)\<close>.
\<close>

definition drawRect ::
    "(string \<Rightarrow> real \<Rightarrow> real \<times> real) \<Rightarrow> rect \<Rightarrow> ruler_view \<Rightarrow> drawing \<times> ruler_view" where
  "drawRect sizeWithAttributes dirtyRect self =
     (let length_pt = real RULER_LENGTH_MM * points_per_mm self;
          x0 = MARGIN_PT;
          x1 = x0 + length_pt;
          y0 = BASELINE_Y_PT;
          baseline = [moveToPoint (x0, y0), lineToPoint (x1, y0)];
          p = fold (tick (points_per_mm self)) [0 ..< RULER_LENGTH_MM + 1] baseline;
          labels = fold (label sizeWithAttributes (points_per_mm self))
                     [0 ..< RULER_LENGTH_MM div 10 + 1] [];
          ts = warning self labels
      in (\<lparr>filled = dirtyRect, path = p, texts = ts\<rparr>, self))"

section \<open>The conditions the specification names\<close>

text \<open>
  These two predicates follow the words of the specification, not the code: the metrics
  are unavailable when the display id cannot be resolved, when the physical-size or the
  pixel-width query fails, or when one of them yields a non-positive value; the scale
  conversion is unavailable when the backing query fails or yields a non-positive ratio.
\<close>

definition MetricsUnavailable :: "display_context \<Rightarrow> bool" where
  "MetricsUnavailable ctx =
     (case select_display_id ctx of
        None \<Rightarrow> True
      | Some d \<Rightarrow>
          (case CGDisplayScreenSize ctx d of None \<Rightarrow> True | Some mm \<Rightarrow> mm \<le> 0) \<or>
          (case CGDisplayModeGetPixelWidth ctx d of None \<Rightarrow> True | Some px \<Rightarrow> px \<le> 0))"

definition ScaleConversionUnavailable :: "display_context \<Rightarrow> bool" where
  "ScaleConversionUnavailable ctx =
     (case convertRectToBacking ctx of
        None \<Rightarrow> True
      | Some width \<Rightarrow> width / 200 \<le> 0)"

text \<open>
  The tiers of the ticks, in the words of the specification: a multiple of 10 is tall, a
  multiple of 5 that is not one of 10 is medium, anything else is short. The height of a
  tier is the constant of the source with that meaning.
\<close>

datatype tier = tall | medium | short

definition tier_rule :: "nat \<Rightarrow> tier" where
  "tier_rule mm = (if 10 dvd mm then tall else if 5 dvd mm then medium else short)"

definition tier_height :: "tier \<Rightarrow> real" where
  "tier_height t =
     (case t of
        tall \<Rightarrow> TICK_LARGE_PT
      | medium \<Rightarrow> TICK_MED_PT
      | short \<Rightarrow> TICK_SMALL_PT)"

section \<open>Example inputs\<close>

text \<open>
  The end-to-end example of the specification: a display 300 mm and 3000 pixels wide,
  two pixels to the point (a backing width of 400 for the 200 points of line 129), showing
  the window. The view starts with stale values, to show that they are replaced.
\<close>

definition example_screen :: ns_screen where
  "example_screen = \<lparr>NSScreenNumber = Some 1\<rparr>"

definition example_context :: display_context where
  "example_context =
     \<lparr>window = Some \<lparr>screen = Some example_screen\<rparr>,
      mainScreen = Some example_screen,
      CGDisplayScreenSize = (\<lambda>d. Some 300),
      CGDisplayModeGetPixelWidth = (\<lambda>d. Some 3000),
      convertRectToBacking = Some 400\<rparr>"

definition example_view :: ruler_view where
  "example_view = \<lparr>points_per_mm = 1.0, error_text = Some ''stale''\<rparr>"

text \<open>
  A view with no window on a machine with no screen, where the backing query fails too; the
  example display reporting a physical width of zero; and the example display with a
  backing width of zero.
\<close>

definition no_display_context :: display_context where
  "no_display_context =
     \<lparr>window = None,
      mainScreen = None,
      CGDisplayScreenSize = (\<lambda>d. Some 300),
      CGDisplayModeGetPixelWidth = (\<lambda>d. Some 3000),
      convertRectToBacking = None\<rparr>"

definition zero_width_context :: display_context where
  "zero_width_context = example_context\<lparr>CGDisplayScreenSize := (\<lambda>d. Some 0)\<rparr>"

definition zero_scale_context :: display_context where
  "zero_scale_context = example_context\<lparr>convertRectToBacking := Some 0\<rparr>"

text \<open>
  Two displays, with a window that is on no screen: the main screen is display 2, 250 mm
  and 2000 pixels wide, and every other display is 300 mm and 3000 pixels wide. Then the
  example display as the main screen of a view with no window, its device description
  without a screen number. Last, a text measure (7 points a character, 14 high) standing
  for AppKit's, and a rectangle to redraw.
\<close>

definition second_display_context :: display_context where
  "second_display_context =
     \<lparr>window = Some \<lparr>screen = None\<rparr>,
      mainScreen = Some \<lparr>NSScreenNumber = Some 2\<rparr>,
      CGDisplayScreenSize = (\<lambda>d. if d = 2 then Some 250 else Some 300),
      CGDisplayModeGetPixelWidth = (\<lambda>d. if d = 2 then Some 2000 else Some 3000),
      convertRectToBacking = Some 400\<rparr>"

definition unnumbered_main_context :: display_context where
  "unnumbered_main_context =
     example_context\<lparr>window := None, mainScreen := Some \<lparr>NSScreenNumber = None\<rparr>\<rparr>"

definition example_measure :: "string \<Rightarrow> real \<Rightarrow> real \<times> real" where
  "example_measure s f = (7 * real (length s), 14)"

definition example_rect :: rect where
  "example_rect = (0, 0, 790, 90)"

section \<open>Properties of the parts\<close>

lemma truediv_nonzero: "b \<noteq> 0 \<Longrightarrow> truediv a b = Inr (a / b)"
  by (simp add: truediv_def)

lemma try_backing_pos: "try_backing ctx = Inr r \<Longrightarrow> 0 < r"
  by (auto simp: try_backing_def Let_def split: option.splits if_splits)

lemma resolve_pixels_per_point_pos: "0 < fst (resolve_pixels_per_point ctx err)"
  by (auto simp: resolve_pixels_per_point_def split: sum.splits dest: try_backing_pos)

text \<open>
  The divisor of line 137 is never zero, so the method always returns, and what it
  returns is made of the two resolved values.
\<close>

lemma recomputeAndResize_Inr:
  "recomputeAndResize ctx self =
     Inr (self\<lparr>points_per_mm :=
                 fst (resolve_pixels_per_mm ctx) /
                 fst (resolve_pixels_per_point ctx (snd (resolve_pixels_per_mm ctx))),
               error_text := snd (resolve_pixels_per_point ctx (snd (resolve_pixels_per_mm ctx)))\<rparr>,
          \<lparr>content_size =
             (case window ctx of
                None \<Rightarrow> None
              | Some win \<Rightarrow>
                  Some (content_w (fst (resolve_pixels_per_mm ctx) /
                          fst (resolve_pixels_per_point ctx (snd (resolve_pixels_per_mm ctx)))),
                        CONTENT_H_PT)),
           needs_display = True\<rparr>)"
proof -
  have "fst (resolve_pixels_per_point ctx (snd (resolve_pixels_per_mm ctx))) \<noteq> 0"
    using resolve_pixels_per_point_pos [of ctx "snd (resolve_pixels_per_mm ctx)"] by simp
  then show ?thesis
    by (simp add: recomputeAndResize_def truediv_def split_beta)
qed

lemma try_measure_no_ZeroDivisionError: "try_measure ctx d \<noteq> Inl ZeroDivisionError"
  by (auto simp: try_measure_def truediv_def Let_def split: option.splits)

lemma measured_None_iff: "measured_pixels_per_mm ctx = None \<longleftrightarrow> MetricsUnavailable ctx"
  by (auto simp: measured_pixels_per_mm_def MetricsUnavailable_def try_measure_def truediv_def
      Let_def split: option.splits)

lemma measured_Some:
  assumes "select_display_id ctx = Some d"
    and "CGDisplayScreenSize ctx d = Some mm" and "CGDisplayModeGetPixelWidth ctx d = Some px"
    and "0 < mm" and "0 < px"
  shows "measured_pixels_per_mm ctx = Some (real_of_int px / mm)"
  using assms by (simp add: measured_pixels_per_mm_def try_measure_def truediv_def)

lemma fallback_density: "FALLBACK_PPI / MM_PER_INCH = 10"
  by (simp add: FALLBACK_PPI_def MM_PER_INCH_def)

lemma fallback_ppi_note_nonempty: "fallback_ppi_note \<noteq> []"
  by (simp add: fallback_ppi_note_def)

lemma fallback_scale_note_nonempty: "fallback_scale_note \<noteq> []"
  by (simp add: fallback_scale_note_def)

lemma resolve_pixels_per_mm_unavailable:
  "MetricsUnavailable ctx \<Longrightarrow>
     resolve_pixels_per_mm ctx = (FALLBACK_PPI / MM_PER_INCH, Some fallback_ppi_note)"
  using measured_None_iff [of ctx] by (simp add: resolve_pixels_per_mm_def)

lemma resolve_pixels_per_mm_available:
  "\<not> MetricsUnavailable ctx \<Longrightarrow>
     \<exists>p. measured_pixels_per_mm ctx = Some p \<and> resolve_pixels_per_mm ctx = (p, None)"
  using measured_None_iff [of ctx] by (auto simp: resolve_pixels_per_mm_def)

lemma try_backing_Inl_iff: "(\<exists>e. try_backing ctx = Inl e) \<longleftrightarrow> ScaleConversionUnavailable ctx"
  by (auto simp: try_backing_def ScaleConversionUnavailable_def Let_def split: option.splits)

lemma resolve_pixels_per_point_unavailable:
  "ScaleConversionUnavailable ctx \<Longrightarrow>
     resolve_pixels_per_point ctx err = (2, Some (or_empty err @ fallback_scale_note))"
  using try_backing_Inl_iff [of ctx]
  by (auto simp: resolve_pixels_per_point_def split: sum.splits)

lemma resolve_pixels_per_point_available:
  "convertRectToBacking ctx = Some width \<Longrightarrow> 0 < width / 200 \<Longrightarrow>
     resolve_pixels_per_point ctx err = (width / 200, err)"
  by (simp add: resolve_pixels_per_point_def try_backing_def)

lemma example_display_id: "select_display_id example_context = Some 1"
  by (simp add: example_context_def example_screen_def select_display_id_def select_screen_def
      display_id_for_screen_def py_int_def)

lemma select_display_id_measurements [simp]:
  "select_display_id (ctx\<lparr>CGDisplayScreenSize := f\<rparr>) = select_display_id ctx"
  "select_display_id (ctx\<lparr>CGDisplayModeGetPixelWidth := g\<rparr>) = select_display_id ctx"
  "select_display_id (ctx\<lparr>convertRectToBacking := h\<rparr>) = select_display_id ctx"
  by (simp_all add: select_display_id_def select_screen_def split: option.splits)

lemma resolve_pixels_per_point_measurements [simp]:
  "resolve_pixels_per_point (ctx\<lparr>CGDisplayScreenSize := f\<rparr>) err = resolve_pixels_per_point ctx err"
  "resolve_pixels_per_point (ctx\<lparr>CGDisplayModeGetPixelWidth := g\<rparr>) err = resolve_pixels_per_point ctx err"
  by (simp_all add: resolve_pixels_per_point_def try_backing_def)

lemma resolve_pixels_per_point_note:
  "snd (resolve_pixels_per_point ctx err) =
     (if ScaleConversionUnavailable ctx then Some (or_empty err @ fallback_scale_note) else err)"
  using try_backing_Inl_iff [of ctx]
  by (auto simp: resolve_pixels_per_point_def split: sum.splits)

lemma recompute_never_raises:
  "recomputeAndResize ctx self \<noteq> Inl e"
  by (simp add: recomputeAndResize_Inr)

subsection \<open>The drawing\<close>

lemma fold_tick: "fold (tick ppm) xs p = p @ concat (map (\<lambda>mm. tick ppm mm []) xs)"
  by (induction xs arbitrary: p) (simp_all add: tick_def Let_def)

lemma fold_label:
  "fold (label m ppm) xs ts = ts @ concat (map (\<lambda>cm. label m ppm cm []) xs)"
  by (induction xs arbitrary: ts) (simp_all add: label_def Let_def split_beta)

lemma concat_pairs_nth:
  assumes "\<And>x. f x = [a x, b x]" and "i < length xs"
  shows "concat (map f xs) ! (2 * i) = a (xs ! i)"
    and "concat (map f xs) ! (2 * i + 1) = b (xs ! i)"
  using assms(2)
proof (induction xs arbitrary: i)
  case Nil
  { case 1 then show ?case by simp }
  { case 2 then show ?case by simp }
next
  case (Cons x xs)
  { case 1 then show ?case using Cons.IH(1) [of "i - 1"] by (cases i) (simp_all add: assms(1)) }
  { case 2 then show ?case using Cons.IH(2) [of "i - 1"] by (cases i) (simp_all add: assms(1)) }
qed

lemma concat_pairs_length:
  assumes "\<And>x. f x = [a x, b x]"
  shows "length (concat (map f xs)) = 2 * length xs"
  by (induction xs) (simp_all add: assms)

lemma concat_singletons:
  assumes "\<And>x. f x = [g x]"
  shows "concat (map f xs) = map g xs"
  by (induction xs) (simp_all add: assms)

lemma tick_height_tier: "tick_height mm = tier_height (tier_rule mm)"
  by (auto simp: tick_height_def tier_height_def tier_rule_def mod_eq_0_iff_dvd)

lemma tick_ops:
  "tick ppm mm [] =
     [moveToPoint (MARGIN_PT + real mm * ppm, BASELINE_Y_PT),
      lineToPoint (MARGIN_PT + real mm * ppm, BASELINE_Y_PT + tier_height (tier_rule mm))]"
  by (simp add: tick_def Let_def tick_height_tier)

lemma drawRect_path:
  "path (fst (drawRect m r self)) =
     [moveToPoint (MARGIN_PT, BASELINE_Y_PT),
      lineToPoint (MARGIN_PT + real RULER_LENGTH_MM * points_per_mm self, BASELINE_Y_PT)] @
     concat (map (\<lambda>mm. tick (points_per_mm self) mm []) [0 ..< RULER_LENGTH_MM + 1])"
  by (simp add: drawRect_def Let_def fold_tick del: upt_Suc)

lemma drawRect_path_length: "length (path (fst (drawRect m r self))) = 2 + 2 * 151"
  by (simp add: drawRect_path concat_pairs_length [OF tick_ops] RULER_LENGTH_MM_def)

lemma drawRect_tick:
  assumes "mm \<le> 150"
  shows "path (fst (drawRect m r self)) ! (2 + 2 * mm) =
           moveToPoint (MARGIN_PT + real mm * points_per_mm self, BASELINE_Y_PT)"
    and "path (fst (drawRect m r self)) ! (3 + 2 * mm) =
           lineToPoint (MARGIN_PT + real mm * points_per_mm self,
                        BASELINE_Y_PT + tier_height (tier_rule mm))"
proof -
  let ?xs = "[0 ..< RULER_LENGTH_MM + 1]"
  let ?f = "\<lambda>mm. tick (points_per_mm self) mm []"
  have l: "mm < length ?xs" and n: "?xs ! mm = mm"
    using assms by (simp_all add: RULER_LENGTH_MM_def)
  have a: "concat (map ?f ?xs) ! (2 * mm) =
             moveToPoint (MARGIN_PT + real (?xs ! mm) * points_per_mm self, BASELINE_Y_PT)"
    by (rule concat_pairs_nth(1) [OF tick_ops l])
  have b: "concat (map ?f ?xs) ! (2 * mm + 1) =
             lineToPoint (MARGIN_PT + real (?xs ! mm) * points_per_mm self,
                          BASELINE_Y_PT + tier_height (tier_rule (?xs ! mm)))"
    by (rule concat_pairs_nth(2) [OF tick_ops l])
  have i: "3 + 2 * mm = Suc (Suc (2 * mm + 1))" "2 + 2 * mm = Suc (Suc (2 * mm))"
    by simp_all
  show "path (fst (drawRect m r self)) ! (2 + 2 * mm) =
           moveToPoint (MARGIN_PT + real mm * points_per_mm self, BASELINE_Y_PT)"
    unfolding drawRect_path i using a n by simp
  show "path (fst (drawRect m r self)) ! (3 + 2 * mm) =
           lineToPoint (MARGIN_PT + real mm * points_per_mm self,
                        BASELINE_Y_PT + tier_height (tier_rule mm))"
    unfolding drawRect_path i using b n by simp
qed

lemma content_w_formula: "content_w u = 2 * 20.0 + 150 * u"
  by (simp add: content_w_def MARGIN_PT_def RULER_LENGTH_MM_def)

lemma example_recompute:
  "recomputeAndResize example_context example_view =
     Inr (\<lparr>points_per_mm = 5, error_text = None\<rparr>,
          \<lparr>content_size = Some (790, 90), needs_display = True\<rparr>)"
proof -
  have m: "resolve_pixels_per_mm example_context = (10, None)"
    using measured_Some [OF example_display_id, of 300 3000]
    by (simp add: resolve_pixels_per_mm_def example_context_def)
  have p: "resolve_pixels_per_point example_context None = (2, None)"
    using resolve_pixels_per_point_available [of example_context 400 None]
    by (simp add: example_context_def)
  have w: "window example_context = Some \<lparr>screen = Some example_screen\<rparr>"
    by (simp add: example_context_def)
  show ?thesis
    by (simp add: recomputeAndResize_Inr m p w content_w_formula CONTENT_H_PT_def
        example_view_def)
qed

lemma label_op:
  "label m ppm cm [] =
     [\<lparr>text_string = str cm,
       at_point = (MARGIN_PT + real (cm * 10) * ppm - fst (m (str cm) 12) / 2,
                   BASELINE_Y_PT - snd (m (str cm) 12) - 4),
       font_size = 12,
       text_colour = blackColor\<rparr>]"
  by (simp add: label_def Let_def split_beta)

lemma warning_append: "warning self ts = ts @ warning self []"
  by (simp add: warning_def split: option.splits)

lemma warning_degraded:
  "warning self [] =
     (if degraded self then
        [\<lparr>text_string = the (error_text self),
          at_point = (MARGIN_PT, CONTENT_H_PT - 18),
          font_size = 11,
          text_colour = grayColor\<rparr>]
      else [])"
  by (simp add: warning_def degraded_def truthy_def split: option.splits)

lemma drawRect_texts:
  "texts (fst (drawRect m r self)) =
     map (\<lambda>cm. \<lparr>text_string = str cm,
                 at_point = (MARGIN_PT + real (cm * 10) * points_per_mm self -
                               fst (m (str cm) 12) / 2,
                             BASELINE_Y_PT - snd (m (str cm) 12) - 4),
                 font_size = 12,
                 text_colour = blackColor\<rparr>)
       [0 ..< 16] @
     warning self []"
proof -
  have "texts (fst (drawRect m r self)) =
          concat (map (\<lambda>cm. label m (points_per_mm self) cm []) [0 ..< 16]) @ warning self []"
    using warning_append [of self "fold (label m (points_per_mm self)) [0 ..< 16] []"]
    by (simp add: drawRect_def Let_def RULER_LENGTH_MM_def fold_label del: upt_Suc)
  then show ?thesis
    by (simp only: concat_singletons [OF label_op])
qed

lemma str_examples: "str 0 = ''0''" "str 3 = ''3''" "str 15 = ''15''"
  by (simp_all add: str.simps digit_def)

lemma select_screen_detached:
  "window ctx = None \<or> (\<exists>win. window ctx = Some win \<and> screen win = None) \<Longrightarrow>
     select_screen ctx = mainScreen ctx"
  by (auto simp: select_screen_def)

lemma display_id_for_screen_eq: "display_id_for_screen s = NSScreenNumber s"
  by (simp add: display_id_for_screen_def py_int_def split: option.splits)

lemma resolve_pixels_per_point_value:
  "fst (resolve_pixels_per_point ctx err) =
     (case convertRectToBacking ctx of
        None \<Rightarrow> 2
      | Some width \<Rightarrow> if width / 200 \<le> 0 then 2 else width / 200)"
  by (simp add: resolve_pixels_per_point_def try_backing_def Let_def split: option.splits)

lemma measured_pixels_per_mm_value:
  "measured_pixels_per_mm ctx =
     (case select_display_id ctx of
        None \<Rightarrow> None
      | Some d \<Rightarrow>
          (case CGDisplayScreenSize ctx d of
             None \<Rightarrow> None
           | Some mm \<Rightarrow>
               (case CGDisplayModeGetPixelWidth ctx d of
                  None \<Rightarrow> None
                | Some px \<Rightarrow>
                    if 0 < mm \<and> 0 < px then Some (real_of_int px / mm) else None)))"
  by (simp add: measured_pixels_per_mm_def try_measure_def truediv_def Let_def
      split: option.splits)

section \<open>The claims\<close>

text \<open>
  C1. When the display id is resolved, the physical width, the pixel width and the backing
  width are all reported, and the physical width, the pixel width and the ratio of pixels
  to points are positive, \<^verbatim>\<open>recomputeAndResize\<close> returns, the scale it stores is the
  pixel width over the physical width, over the ratio, and no note is stored: the state
  is not degraded.
\<close>

theorem measured_scale_exact:
  assumes "select_display_id ctx = Some d"
    and "CGDisplayScreenSize ctx d = Some physical_width_mm"
    and "CGDisplayModeGetPixelWidth ctx d = Some pixel_width"
    and "convertRectToBacking ctx = Some backing_width"
    and "units_per_pixel = backing_width / 200"
    and "physical_width_mm > 0" and "pixel_width > 0" and "units_per_pixel > 0"
  shows "\<exists>self' eff. recomputeAndResize ctx self = Inr (self', eff) \<and>
           points_per_mm self' = (real_of_int pixel_width / physical_width_mm) / units_per_pixel \<and>
           error_text self' = None \<and> \<not> degraded self'"
proof -
  have m: "resolve_pixels_per_mm ctx = (real_of_int pixel_width / physical_width_mm, None)"
    using measured_Some [OF assms(1-3)] assms(6,7) by (simp add: resolve_pixels_per_mm_def)
  have p: "resolve_pixels_per_point ctx None = (units_per_pixel, None)"
    using resolve_pixels_per_point_available [of ctx backing_width None] assms(4,5,8) by simp
  show ?thesis
    by (simp add: recomputeAndResize_Inr m p degraded_def truthy_def)
qed

theorem measured_scale_exact_witness:
  "\<exists>self' eff. recomputeAndResize example_context example_view = Inr (self', eff) \<and>
     points_per_mm self' = 5 \<and> error_text self' = None \<and> \<not> degraded self'"
  using measured_scale_exact [OF example_display_id, of 300 3000 400 2 example_view]
  by (simp add: example_context_def)

text \<open>
  C2. When the metrics are unavailable (the display id is not resolved, the physical-size or
  the pixel-width query fails, or one of them yields a non-positive value), the resolver
  uses the fallback density, which is 254 / 25.4 and is 10, \<^verbatim>\<open>recomputeAndResize\<close>
  returns, and the state it stores is degraded, with a note that starts with the non-empty
  fallback note (followed by the second note exactly when the scale conversion is
  unavailable too).
\<close>

theorem metrics_fallback:
  assumes "MetricsUnavailable ctx"
  shows "fst (resolve_pixels_per_mm ctx) = FALLBACK_PPI / MM_PER_INCH \<and>
         FALLBACK_PPI / MM_PER_INCH = 254 / 25.4 \<and>
         fst (resolve_pixels_per_mm ctx) = 10.0 \<and>
         (\<exists>self' eff. recomputeAndResize ctx self = Inr (self', eff) \<and>
            points_per_mm self' = 10.0 / fst (resolve_pixels_per_point ctx (Some fallback_ppi_note)) \<and>
            degraded self' \<and>
            error_text self' =
              Some (fallback_ppi_note @
                    (if ScaleConversionUnavailable ctx then fallback_scale_note else [])) \<and>
            fallback_ppi_note \<noteq> [])"
proof -
  have m: "resolve_pixels_per_mm ctx = (10, Some fallback_ppi_note)"
    using resolve_pixels_per_mm_unavailable [OF assms] by (simp add: fallback_density)
  have c: "FALLBACK_PPI / MM_PER_INCH = 254 / 25.4"
    by (simp add: FALLBACK_PPI_def MM_PER_INCH_def)
  show ?thesis
    by (simp add: recomputeAndResize_Inr m c fallback_density resolve_pixels_per_point_note
        or_empty_def degraded_def truthy_def fallback_ppi_note_nonempty)
qed

theorem metrics_fallback_witness:
  "MetricsUnavailable zero_width_context \<and>
   fst (resolve_pixels_per_mm zero_width_context) = 10 \<and>
   (\<exists>self' eff. recomputeAndResize zero_width_context example_view = Inr (self', eff) \<and>
      points_per_mm self' = 5 \<and> error_text self' = Some fallback_ppi_note)"
proof -
  have u: "MetricsUnavailable zero_width_context"
    by (simp add: MetricsUnavailable_def zero_width_context_def example_display_id)
  have s: "\<not> ScaleConversionUnavailable zero_width_context"
    by (simp add: ScaleConversionUnavailable_def zero_width_context_def example_context_def)
  have p: "fst (resolve_pixels_per_point zero_width_context (Some fallback_ppi_note)) = 2"
    by (simp add: zero_width_context_def resolve_pixels_per_point_def try_backing_def
        example_context_def)
  from metrics_fallback [OF u, of example_view] show ?thesis
    by (auto simp: u s p)
qed

text \<open>
  C3. When the scale conversion is unavailable (the backing query fails or yields a
  non-positive ratio), the resolver uses 2.0 pixels to the point, \<^verbatim>\<open>recomputeAndResize\<close>
  returns, and the note it stores ends with the second note: after the first note when the
  metrics were unavailable too, so that both are there, and alone otherwise.
\<close>

theorem scale_fallback:
  assumes "ScaleConversionUnavailable ctx"
  shows "fst (resolve_pixels_per_point ctx err) = 2.0 \<and>
         (\<exists>self' eff. recomputeAndResize ctx self = Inr (self', eff) \<and>
            points_per_mm self' = fst (resolve_pixels_per_mm ctx) / 2.0 \<and>
            error_text self' =
              Some ((if MetricsUnavailable ctx then fallback_ppi_note else []) @
                    fallback_scale_note) \<and>
            degraded self')"
proof -
  have e: "or_empty (snd (resolve_pixels_per_mm ctx)) =
             (if MetricsUnavailable ctx then fallback_ppi_note else [])"
    using resolve_pixels_per_mm_unavailable [of ctx] resolve_pixels_per_mm_available [of ctx]
    by (auto simp: or_empty_def)
  show ?thesis
    by (simp add: recomputeAndResize_Inr resolve_pixels_per_point_unavailable [OF assms] e
        degraded_def truthy_def fallback_scale_note_nonempty)
qed

theorem scale_fallback_witness:
  "ScaleConversionUnavailable zero_scale_context \<and>
   ScaleConversionUnavailable no_display_context \<and>
   (\<exists>self' eff. recomputeAndResize zero_scale_context example_view = Inr (self', eff) \<and>
      error_text self' = Some fallback_scale_note) \<and>
   (\<exists>self' eff. recomputeAndResize no_display_context example_view = Inr (self', eff) \<and>
      points_per_mm self' = 5 \<and>
      error_text self' = Some (fallback_ppi_note @ fallback_scale_note))"
proof -
  have a: "ScaleConversionUnavailable zero_scale_context"
    by (simp add: ScaleConversionUnavailable_def zero_scale_context_def)
  have b: "ScaleConversionUnavailable no_display_context"
    by (simp add: ScaleConversionUnavailable_def no_display_context_def)
  have c: "\<not> MetricsUnavailable zero_scale_context"
    by (simp add: MetricsUnavailable_def zero_scale_context_def example_display_id)
      (simp add: example_context_def)
  have d: "MetricsUnavailable no_display_context"
    by (simp add: MetricsUnavailable_def no_display_context_def select_display_id_def
        select_screen_def)
  have m: "fst (resolve_pixels_per_mm no_display_context) = 10"
    using resolve_pixels_per_mm_unavailable [OF d] by (simp add: fallback_density)
  show ?thesis
    using scale_fallback [OF a, of None example_view] scale_fallback [OF b, of None example_view] a b
    by (auto simp: c d m)
qed

text \<open>
  C4. When the physical width or the pixel width is reported as exactly zero, the
  \<^verbatim>\<open>try\<close> of lines 112 to 119 ends without an exception and without a value (the
  division of line 119 is not reached), \<^verbatim>\<open>recomputeAndResize\<close> returns rather than
  raising, and what it returns is what it returns when the physical-size query fails, and
  when the pixel-width query fails: the fallback density and its note.
\<close>

theorem zero_width_is_query_failure:
  assumes "select_display_id ctx = Some d"
    and "CGDisplayScreenSize ctx d = Some physical_width_mm"
    and "CGDisplayModeGetPixelWidth ctx d = Some pixel_width"
    and "physical_width_mm = 0 \<or> pixel_width = 0"
  shows "try_measure ctx d = Inr None \<and>
         recomputeAndResize ctx self =
           recomputeAndResize (ctx\<lparr>CGDisplayScreenSize := (\<lambda>d. None)\<rparr>) self \<and>
         recomputeAndResize ctx self =
           recomputeAndResize (ctx\<lparr>CGDisplayModeGetPixelWidth := (\<lambda>d. None)\<rparr>) self \<and>
         resolve_pixels_per_mm ctx = (FALLBACK_PPI / MM_PER_INCH, Some fallback_ppi_note) \<and>
         (\<exists>self' eff. recomputeAndResize ctx self = Inr (self', eff))"
proof -
  have t: "try_measure ctx d = Inr None"
    using assms by (auto simp: try_measure_def)
  have u: "MetricsUnavailable ctx"
    using assms by (auto simp: MetricsUnavailable_def)
  have u1: "MetricsUnavailable (ctx\<lparr>CGDisplayScreenSize := (\<lambda>d. None)\<rparr>)"
    using assms(1) by (simp add: MetricsUnavailable_def)
  have u2: "MetricsUnavailable (ctx\<lparr>CGDisplayModeGetPixelWidth := (\<lambda>d. None)\<rparr>)"
    using assms(1) by (simp add: MetricsUnavailable_def)
  have w: "window (ctx\<lparr>CGDisplayScreenSize := (\<lambda>d. None)\<rparr>) = window ctx"
      "window (ctx\<lparr>CGDisplayModeGetPixelWidth := (\<lambda>d. None)\<rparr>) = window ctx"
    by simp_all
  show ?thesis
    by (simp add: t recomputeAndResize_Inr resolve_pixels_per_mm_unavailable [OF u]
        resolve_pixels_per_mm_unavailable [OF u1] resolve_pixels_per_mm_unavailable [OF u2]
        cong: option.case_cong)
qed

theorem zero_width_is_query_failure_witness:
  "try_measure zero_width_context 1 = Inr None \<and>
   recomputeAndResize zero_width_context example_view =
     recomputeAndResize (zero_width_context\<lparr>CGDisplayScreenSize := (\<lambda>d. None)\<rparr>) example_view \<and>
   (\<exists>self' eff. recomputeAndResize zero_width_context example_view = Inr (self', eff))"
proof -
  have i: "select_display_id zero_width_context = Some 1"
    by (simp add: zero_width_context_def example_display_id)
  have a: "CGDisplayScreenSize zero_width_context 1 = Some 0"
    by (simp add: zero_width_context_def)
  have b: "CGDisplayModeGetPixelWidth zero_width_context 1 = Some 3000"
    by (simp add: zero_width_context_def example_context_def)
  have c: "(0::real) = 0 \<or> (3000::int) = 0"
    by simp
  from zero_width_is_query_failure [OF i a b c, of example_view] show ?thesis
    by blast
qed

text \<open>
  C5. \<^verbatim>\<open>recomputeAndResize\<close> is idempotent: it returns, and run again on the view it
  left, with the same display context, it leaves the same view and asks for the same
  content size.
\<close>

theorem recompute_idempotent:
  "\<exists>self' eff. recomputeAndResize ctx self = Inr (self', eff) \<and>
     recomputeAndResize ctx self' = Inr (self', eff)"
  by (simp add: recomputeAndResize_Inr)

theorem recompute_idempotent_witness:
  "\<exists>self' eff. recomputeAndResize example_context example_view = Inr (self', eff) \<and>
     recomputeAndResize example_context self' = Inr (self', eff)"
  using recompute_idempotent [of example_context example_view] .

text \<open>
  C6. For every scale the content width is 2 * 20.0 + 150 times the scale, 790.0 for a
  scale of 5.0, and that is the width \<^verbatim>\<open>recomputeAndResize\<close> asks of the window for the
  scale it stores. In the path \<^verbatim>\<open>drawRect_\<close> strokes, after the two operations of the
  baseline, the tick of each millimetre from 0 to 150 starts on the baseline at the
  margin plus that many millimetres and rises by the height of its tier: tall for a
  multiple of 10, medium for another multiple of 5, short otherwise. So 30 is tall, 25
  medium and 27 short, and tall is higher than medium, medium higher than short.
\<close>

theorem ruler_geometry:
  "content_w u = 2 * 20.0 + 150 * u \<and> content_w 5.0 = 790.0 \<and>
   (\<exists>self' eff. recomputeAndResize ctx self = Inr (self', eff) \<and>
      content_size eff =
        (case window ctx of
           None \<Rightarrow> None
         | Some win \<Rightarrow> Some (2 * 20.0 + 150 * points_per_mm self', 90.0))) \<and>
   (\<forall>mm\<le>150.
      path (fst (drawRect m r v)) ! (2 + 2 * mm) =
        moveToPoint (20.0 + real mm * points_per_mm v, 28.0) \<and>
      path (fst (drawRect m r v)) ! (3 + 2 * mm) =
        lineToPoint (20.0 + real mm * points_per_mm v, 28.0 + tier_height (tier_rule mm))) \<and>
   length (path (fst (drawRect m r v))) = 2 + 2 * 151 \<and>
   tier_rule 30 = tall \<and> tier_rule 25 = medium \<and> tier_rule 27 = short \<and>
   tier_height short < tier_height medium \<and> tier_height medium < tier_height tall"
proof -
  have w: "content_w 5.0 = 790.0"
    by (simp add: content_w_formula)
  have r: "\<exists>self' eff. recomputeAndResize ctx self = Inr (self', eff) \<and>
      content_size eff =
        (case window ctx of
           None \<Rightarrow> None
         | Some win \<Rightarrow> Some (2 * 20.0 + 150 * points_per_mm self', 90.0))"
    by (simp add: recomputeAndResize_Inr content_w_formula CONTENT_H_PT_def split: option.splits)
  have t: "\<forall>mm\<le>150.
      path (fst (drawRect m r v)) ! (2 + 2 * mm) =
        moveToPoint (20.0 + real mm * points_per_mm v, 28.0) \<and>
      path (fst (drawRect m r v)) ! (3 + 2 * mm) =
        lineToPoint (20.0 + real mm * points_per_mm v, 28.0 + tier_height (tier_rule mm))"
    using drawRect_tick [of _ m r v] by (simp add: MARGIN_PT_def BASELINE_Y_PT_def)
  have e: "tier_rule 30 = tall \<and> tier_rule 25 = medium \<and> tier_rule 27 = short"
    by (simp add: tier_rule_def)
  have h: "tier_height short < tier_height medium \<and> tier_height medium < tier_height tall"
    by (simp add: tier_height_def TICK_SMALL_PT_def TICK_MED_PT_def TICK_LARGE_PT_def)
  show ?thesis
    using content_w_formula [of u] w r t drawRect_path_length [of m r v] e h by blast
qed

theorem ruler_geometry_witness:
  "path (fst (drawRect example_measure example_rect \<lparr>points_per_mm = 5, error_text = None\<rparr>)) ! 62 =
     moveToPoint (170, 28) \<and>
   path (fst (drawRect example_measure example_rect \<lparr>points_per_mm = 5, error_text = None\<rparr>)) ! 63 =
     lineToPoint (170, 56) \<and>
   path (fst (drawRect example_measure example_rect \<lparr>points_per_mm = 5, error_text = None\<rparr>)) ! 53 =
     lineToPoint (145, 46) \<and>
   path (fst (drawRect example_measure example_rect \<lparr>points_per_mm = 5, error_text = None\<rparr>)) ! 57 =
     lineToPoint (155, 38) \<and>
   (\<exists>self' eff. recomputeAndResize example_context example_view = Inr (self', eff) \<and>
      content_size eff = Some (790, 90))"
proof -
  let ?v = "\<lparr>points_per_mm = 5, error_text = None\<rparr>"
  note g = ruler_geometry [of 5 example_context example_view example_measure example_rect ?v]
  from g have t: "\<forall>mm\<le>150.
      path (fst (drawRect example_measure example_rect ?v)) ! (2 + 2 * mm) =
        moveToPoint (20.0 + real mm * points_per_mm ?v, 28.0) \<and>
      path (fst (drawRect example_measure example_rect ?v)) ! (3 + 2 * mm) =
        lineToPoint (20.0 + real mm * points_per_mm ?v, 28.0 + tier_height (tier_rule mm))"
    by blast
  have a: "path (fst (drawRect example_measure example_rect ?v)) ! 62 = moveToPoint (170, 28)"
    and b: "path (fst (drawRect example_measure example_rect ?v)) ! 63 = lineToPoint (170, 56)"
    using t [rule_format, of 30]
    by (simp_all add: tier_rule_def tier_height_def TICK_LARGE_PT_def)
  have c: "path (fst (drawRect example_measure example_rect ?v)) ! 53 = lineToPoint (145, 46)"
    using t [rule_format, of 25]
    by (simp add: tier_rule_def tier_height_def TICK_MED_PT_def)
  have d: "path (fst (drawRect example_measure example_rect ?v)) ! 57 = lineToPoint (155, 38)"
    using t [rule_format, of 27]
    by (simp add: tier_rule_def tier_height_def TICK_SMALL_PT_def)
  have p: "points_per_mm self' = 5"
    if "recomputeAndResize example_context example_view = Inr (self', eff)" for self' eff
    using that by (auto simp: example_recompute)
  from g have "\<exists>self' eff. recomputeAndResize example_context example_view = Inr (self', eff) \<and>
      content_size eff = Some (2 * 20.0 + 150 * points_per_mm self', 90.0)"
    by (simp add: example_context_def)
  then have e: "\<exists>self' eff. recomputeAndResize example_context example_view = Inr (self', eff) \<and>
      content_size eff = Some (790, 90)"
    using p by auto
  show ?thesis using a b c d e by blast
qed

text \<open>
  C7. For every scale and every centimetre n from 0 to 15, the n-th string
  \<^verbatim>\<open>drawRect_\<close> draws is the decimal numeral of n, in black at size 12, placed so that
  its measured width is centred on the margin plus n * 10 times the scale. There are
  exactly these 16 labels: the only string drawn after them is the warning, in gray at
  size 11, and only when the state is degraded.
\<close>

theorem label_placement:
  "(\<forall>n\<le>15.
      texts (fst (drawRect m r v)) ! n =
        \<lparr>text_string = str n,
         at_point = (20.0 + real n * 10 * points_per_mm v - fst (m (str n) 12.0) / 2.0,
                     28.0 - snd (m (str n) 12.0) - 4.0),
         font_size = 12.0,
         text_colour = blackColor\<rparr> \<and>
      fst (at_point (texts (fst (drawRect m r v)) ! n)) + fst (m (str n) 12.0) / 2.0 =
        MARGIN_PT + real n * 10 * points_per_mm v) \<and>
   drop 16 (texts (fst (drawRect m r v))) =
     (if degraded v then
        [\<lparr>text_string = the (error_text v),
          at_point = (20.0, 90.0 - 18.0),
          font_size = 11.0,
          text_colour = grayColor\<rparr>]
      else []) \<and>
   length (texts (fst (drawRect m r v))) = 16 + (if degraded v then 1 else 0)"
proof -
  have n: "texts (fst (drawRect m r v)) ! n =
        \<lparr>text_string = str n,
         at_point = (20.0 + real n * 10 * points_per_mm v - fst (m (str n) 12.0) / 2.0,
                     28.0 - snd (m (str n) 12.0) - 4.0),
         font_size = 12.0,
         text_colour = blackColor\<rparr>" if "n \<le> 15" for n
    using that
    by (simp add: drawRect_texts nth_append MARGIN_PT_def BASELINE_Y_PT_def del: upt_Suc)
  have d: "drop 16 (texts (fst (drawRect m r v))) =
     (if degraded v then
        [\<lparr>text_string = the (error_text v),
          at_point = (20.0, 90.0 - 18.0),
          font_size = 11.0,
          text_colour = grayColor\<rparr>]
      else [])"
    by (simp add: drawRect_texts warning_degraded MARGIN_PT_def CONTENT_H_PT_def del: upt_Suc)
  have l: "length (texts (fst (drawRect m r v))) = 16 + (if degraded v then 1 else 0)"
    by (simp add: drawRect_texts warning_degraded del: upt_Suc)
  show ?thesis
    using n d l by (simp add: MARGIN_PT_def)
qed

theorem label_placement_witness:
  "texts (fst (drawRect example_measure example_rect \<lparr>points_per_mm = 5, error_text = None\<rparr>)) ! 15 =
     \<lparr>text_string = ''15'', at_point = (763, 10), font_size = 12, text_colour = blackColor\<rparr> \<and>
   texts (fst (drawRect example_measure example_rect \<lparr>points_per_mm = 5, error_text = None\<rparr>)) ! 0 =
     \<lparr>text_string = ''0'', at_point = (33 / 2, 10), font_size = 12, text_colour = blackColor\<rparr> \<and>
   length (texts (fst (drawRect example_measure example_rect \<lparr>points_per_mm = 5, error_text = None\<rparr>))) = 16"
proof -
  let ?v = "\<lparr>points_per_mm = 5, error_text = None\<rparr>"
  note g = label_placement [of example_measure example_rect ?v]
  from g have t: "\<forall>n\<le>15.
      texts (fst (drawRect example_measure example_rect ?v)) ! n =
        \<lparr>text_string = str n,
         at_point = (20.0 + real n * 10 * points_per_mm ?v - fst (example_measure (str n) 12.0) / 2.0,
                     28.0 - snd (example_measure (str n) 12.0) - 4.0),
         font_size = 12.0,
         text_colour = blackColor\<rparr>"
    by blast
  have a: "texts (fst (drawRect example_measure example_rect ?v)) ! 15 =
     \<lparr>text_string = ''15'', at_point = (763, 10), font_size = 12, text_colour = blackColor\<rparr>"
    using t [rule_format, of 15] by (simp add: str_examples example_measure_def)
  have b: "texts (fst (drawRect example_measure example_rect ?v)) ! 0 =
     \<lparr>text_string = ''0'', at_point = (33 / 2, 10), font_size = 12, text_colour = blackColor\<rparr>"
    using t [rule_format, of 0] by (simp add: str_examples example_measure_def)
  have c: "length (texts (fst (drawRect example_measure example_rect ?v))) = 16"
    using g by (simp add: degraded_def truthy_def)
  show ?thesis using a b c by blast
qed

text \<open>
  C8. \<^verbatim>\<open>drawRect_\<close> only reads the state: the view after it is the view before it, with
  the same scale, the same note and the same degradation.
\<close>

theorem draw_reads_only:
  "snd (drawRect m r self) = self \<and>
   points_per_mm (snd (drawRect m r self)) = points_per_mm self \<and>
   error_text (snd (drawRect m r self)) = error_text self \<and>
   degraded (snd (drawRect m r self)) = degraded self"
  by (simp add: drawRect_def Let_def)

theorem draw_reads_only_witness:
  "snd (drawRect example_measure example_rect example_view) = example_view"
  using draw_reads_only [of example_measure example_rect example_view] by simp

text \<open>
  C9. When the view has no window, or its window is on no screen,
  \<^verbatim>\<open>recomputeAndResize\<close> takes the main screen in its place, resolves the display id
  from the main screen's number, and returns rather than raising. When that id is
  resolved and its physical width and pixel width are reported and positive, the scale
  stored is the main display's pixel width over its physical width, over the ratio of
  pixels to points, and the only note there can be is the one of the scale conversion.
  Otherwise (no main screen, no screen number, a failed query or a non-positive value) no
  display is measured: the scale stored is the fallback density 10 over the ratio, and
  the state is degraded, with the fallback note first.
\<close>

theorem unattached_window_measures_main_display:
  assumes "window ctx = None \<or> (\<exists>win. window ctx = Some win \<and> screen win = None)"
  shows "(let main_id = (case mainScreen ctx of None \<Rightarrow> None | Some s \<Rightarrow> NSScreenNumber s);
              measured =
                (case main_id of
                   None \<Rightarrow> None
                 | Some d \<Rightarrow>
                     (case CGDisplayScreenSize ctx d of
                        None \<Rightarrow> None
                      | Some mm \<Rightarrow>
                          (case CGDisplayModeGetPixelWidth ctx d of
                             None \<Rightarrow> None
                           | Some px \<Rightarrow>
                               if 0 < mm \<and> 0 < px then Some (real_of_int px / mm) else None)));
              ratio =
                (case convertRectToBacking ctx of
                   None \<Rightarrow> 2
                 | Some width \<Rightarrow> if width / 200 \<le> 0 then 2 else width / 200)
          in select_screen ctx = mainScreen ctx \<and>
             select_display_id ctx = main_id \<and>
             (\<exists>self' eff. recomputeAndResize ctx self = Inr (self', eff) \<and>
                (case measured of
                   None \<Rightarrow>
                     points_per_mm self' = 10.0 / ratio \<and> degraded self' \<and>
                     error_text self' =
                       Some (fallback_ppi_note @
                             (if ScaleConversionUnavailable ctx then fallback_scale_note else []))
                 | Some p \<Rightarrow>
                     points_per_mm self' = p / ratio \<and>
                     degraded self' = ScaleConversionUnavailable ctx \<and>
                     error_text self' =
                       (if ScaleConversionUnavailable ctx then Some fallback_scale_note
                        else None))))"
proof -
  let ?main_id = "case mainScreen ctx of None \<Rightarrow> None | Some s \<Rightarrow> NSScreenNumber s"
  let ?measured =
    "case ?main_id of
       None \<Rightarrow> None
     | Some d \<Rightarrow>
         (case CGDisplayScreenSize ctx d of
            None \<Rightarrow> None
          | Some mm \<Rightarrow>
              (case CGDisplayModeGetPixelWidth ctx d of
                 None \<Rightarrow> None
               | Some px \<Rightarrow>
                   if 0 < mm \<and> 0 < px then Some (real_of_int px / mm) else None))"
  have s: "select_screen ctx = mainScreen ctx"
    using assms by (rule select_screen_detached)
  have i: "select_display_id ctx = ?main_id"
    by (simp add: select_display_id_def s display_id_for_screen_eq cong: option.case_cong)
  have m: "measured_pixels_per_mm ctx = ?measured"
    by (simp only: measured_pixels_per_mm_value i)
  have r: "resolve_pixels_per_mm ctx =
             (case ?measured of
                None \<Rightarrow> (10, Some fallback_ppi_note)
              | Some p \<Rightarrow> (p, None))"
    unfolding resolve_pixels_per_mm_def m fallback_density by (rule refl)
  show ?thesis
  proof (cases ?measured)
    case None
    then have r': "resolve_pixels_per_mm ctx = (10, Some fallback_ppi_note)"
      using r by simp
    show ?thesis
      unfolding Let_def None
      by (simp add: s i recomputeAndResize_Inr r' resolve_pixels_per_point_note
          resolve_pixels_per_point_value or_empty_def degraded_def truthy_def
          fallback_ppi_note_nonempty)
  next
    case (Some p)
    then have r': "resolve_pixels_per_mm ctx = (p, None)"
      using r by simp
    show ?thesis
      unfolding Let_def Some
      by (simp add: s i recomputeAndResize_Inr r' resolve_pixels_per_point_note
          resolve_pixels_per_point_value or_empty_def degraded_def truthy_def
          fallback_scale_note_nonempty)
  qed
qed

theorem unattached_window_measures_main_display_witness:
  "select_display_id second_display_context = Some 2 \<and>
   (\<exists>self' eff. recomputeAndResize second_display_context example_view = Inr (self', eff) \<and>
      points_per_mm self' = 4 \<and> error_text self' = None) \<and>
   select_display_id unnumbered_main_context = None \<and>
   (\<exists>self' eff. recomputeAndResize unnumbered_main_context example_view = Inr (self', eff) \<and>
      points_per_mm self' = 5 \<and> degraded self' \<and> error_text self' = Some fallback_ppi_note) \<and>
   select_screen no_display_context = None \<and>
   (\<exists>self' eff. recomputeAndResize no_display_context example_view = Inr (self', eff) \<and>
      points_per_mm self' = 5 \<and> degraded self' \<and>
      error_text self' = Some (fallback_ppi_note @ fallback_scale_note))"
proof -
  have a: "window second_display_context = None \<or>
           (\<exists>win. window second_display_context = Some win \<and> screen win = None)"
    by (simp add: second_display_context_def)
  have b: "window unnumbered_main_context = None \<or>
           (\<exists>win. window unnumbered_main_context = Some win \<and> screen win = None)"
    by (simp add: unnumbered_main_context_def)
  have c: "window no_display_context = None \<or>
           (\<exists>win. window no_display_context = Some win \<and> screen win = None)"
    by (simp add: no_display_context_def)
  have sa: "\<not> ScaleConversionUnavailable second_display_context"
    and sb: "\<not> ScaleConversionUnavailable unnumbered_main_context"
    and sc: "ScaleConversionUnavailable no_display_context"
    by (simp_all add: ScaleConversionUnavailable_def second_display_context_def
        unnumbered_main_context_def example_context_def no_display_context_def)
  have qa: "mainScreen second_display_context = Some \<lparr>NSScreenNumber = Some 2\<rparr>"
      "CGDisplayScreenSize second_display_context 2 = Some 250"
      "CGDisplayModeGetPixelWidth second_display_context 2 = Some 2000"
      "convertRectToBacking second_display_context = Some 400"
    by (simp_all add: second_display_context_def)
  have qb: "mainScreen unnumbered_main_context = Some \<lparr>NSScreenNumber = None\<rparr>"
      "convertRectToBacking unnumbered_main_context = Some 400"
    by (simp_all add: unnumbered_main_context_def example_context_def)
  have qc: "mainScreen no_display_context = None"
      "convertRectToBacking no_display_context = None"
    by (simp_all add: no_display_context_def)
  have A: "select_display_id second_display_context = Some 2 \<and>
   (\<exists>self' eff. recomputeAndResize second_display_context example_view = Inr (self', eff) \<and>
      points_per_mm self' = 4 \<and> error_text self' = None)"
    using unattached_window_measures_main_display [OF a, of example_view, unfolded Let_def]
    by (auto simp: sa qa)
  have B: "select_display_id unnumbered_main_context = None \<and>
   (\<exists>self' eff. recomputeAndResize unnumbered_main_context example_view = Inr (self', eff) \<and>
      points_per_mm self' = 5 \<and> degraded self' \<and> error_text self' = Some fallback_ppi_note)"
    using unattached_window_measures_main_display [OF b, of example_view, unfolded Let_def]
    by (auto simp: sb qb)
  have C: "select_screen no_display_context = None \<and>
   (\<exists>self' eff. recomputeAndResize no_display_context example_view = Inr (self', eff) \<and>
      points_per_mm self' = 5 \<and> degraded self' \<and>
      error_text self' = Some (fallback_ppi_note @ fallback_scale_note))"
    using unattached_window_measures_main_display [OF c, of example_view, unfolded Let_def]
    by (auto simp: sc qc)
  show ?thesis using A B C by blast
qed

text \<open>
  Resolution does not always proceed with a display: with no window and no main screen,
  line 105 leaves no screen and line 106 no display id.
\<close>

theorem no_screen_counterexample:
  "window no_display_context = None \<and> select_screen no_display_context = None \<and>
   select_display_id no_display_context = None"
  by (simp add: no_display_context_def select_screen_def select_display_id_def)

text \<open>
  C10. A view that \<^verbatim>\<open>initWithFrame_\<close> returns has a scale of 5.0 and no note, so it is not
  degraded, before \<^verbatim>\<open>recomputeAndResize\<close> has ever run; and \<^verbatim>\<open>drawRect_\<close> on it draws the
  whole ruler: the baseline from 20 to 770, the 151 ticks, and the 16 labels in black
  with no warning after them.
\<close>

theorem fresh_view_well_formed:
  assumes "initWithFrame super_ok = Some self"
  shows "points_per_mm self = 5.0 \<and> error_text self = None \<and> \<not> degraded self \<and>
         length (path (fst (drawRect m r self))) = 2 + 2 * 151 \<and>
         path (fst (drawRect m r self)) ! 0 = moveToPoint (20.0, 28.0) \<and>
         path (fst (drawRect m r self)) ! 1 = lineToPoint (770.0, 28.0) \<and>
         length (texts (fst (drawRect m r self))) = 16 \<and>
         list_all (\<lambda>t. text_colour t = blackColor) (texts (fst (drawRect m r self)))"
proof -
  have v: "self = \<lparr>points_per_mm = 5, error_text = None\<rparr>"
    using assms by (simp add: initWithFrame_def split: if_splits)
  have d: "\<not> degraded self"
    by (simp add: v degraded_def truthy_def)
  have w: "warning self [] = []"
    by (simp add: warning_degraded d)
  have p: "path (fst (drawRect m r self)) ! 0 = moveToPoint (20.0, 28.0)"
      "path (fst (drawRect m r self)) ! 1 = lineToPoint (770.0, 28.0)"
    by (simp_all add: drawRect_path v MARGIN_PT_def BASELINE_Y_PT_def RULER_LENGTH_MM_def
        del: upt_Suc)
  have t: "length (texts (fst (drawRect m r self))) = 16"
      "list_all (\<lambda>t. text_colour t = blackColor) (texts (fst (drawRect m r self)))"
    by (simp_all add: drawRect_texts w list_all_iff del: upt_Suc)
  show ?thesis
    using p t d drawRect_path_length [of m r self] by (simp add: v)
qed

theorem fresh_view_well_formed_witness:
  "initWithFrame True = Some \<lparr>points_per_mm = 5, error_text = None\<rparr> \<and>
   \<not> degraded \<lparr>points_per_mm = 5, error_text = None\<rparr> \<and>
   length (texts (fst (drawRect example_measure example_rect
     \<lparr>points_per_mm = 5, error_text = None\<rparr>))) = 16"
proof -
  have i: "initWithFrame True = Some \<lparr>points_per_mm = 5, error_text = None\<rparr>"
    by (simp add: initWithFrame_def)
  show ?thesis
    using fresh_view_well_formed [OF i, of example_measure example_rect] i by simp
qed

end
